theory Spec2Isabelle
  imports Main
begin

section \<open>The OAuth library's data, as the examples use it\<close>

text \<open>
  Both example programs are clients of the external package \<open>oauth\<close>. Of that package
  only the data it exchanges with the examples is modelled: \<open>oauth.Credentials\<close> and
  \<open>oauth.Client\<close>. What the package computes (signing, the HTTP round trips of
  \<open>RequestTemporaryCredentials\<close> and \<open>RequestToken\<close>) is passed to each operation as an
  argument: the answer the collaborator gives at that call. A Go \<open>error\<close> is its message.
\<close>

record Credentials =
  Token :: string
  Secret :: string

record Client =
  Credentials :: Credentials
  TemporaryCredentialRequestURI :: string
  ResourceOwnerAuthorizationURI :: string
  TokenRequestURI :: string

type_synonym err = string

section \<open>Server example (examples/twitter/main.go)\<close>

subsection \<open>Process state\<close>

text \<open>
  The package-level variables of the server: the two clients and the map \<open>secrets\<close>
  from credential tokens to credential secrets. The mutex only serialises access; one
  handler call is one atomic step here. \<open>configReads\<close> is not a variable of the program:
  it counts the calls of \<open>ioutil.ReadFile\<close> on the configuration path made so far.
\<close>

record server =
  oauthClient :: Client
  signinOAuthClient :: Client
  secrets :: "string \<rightharpoonup> string"
  configReads :: nat

subsection \<open>Credential store\<close>

definition putCredentials :: "Credentials \<Rightarrow> server \<Rightarrow> server" where
  "putCredentials cred s = s\<lparr>secrets := (secrets s)(Token cred \<mapsto> Secret cred)\<rparr>"

definition getCredentials :: "server \<Rightarrow> string \<Rightarrow> Credentials option" where
  "getCredentials s token =
     (case secrets s token of
        Some secret \<Rightarrow> Some \<lparr>Token = token, Secret = secret\<rparr>
      | None \<Rightarrow> None)"

definition deleteCredentials :: "string \<Rightarrow> server \<Rightarrow> server" where
  "deleteCredentials token s = s\<lparr>secrets := (secrets s)(token := None)\<rparr>"

subsection \<open>What a handler writes\<close>

text \<open>
  \<open>Expires\<close> is in seconds; \<open>None\<close> is Go's zero time (the attribute is not sent).
  A cookie literal of the source that leaves a field out has Go's zero value there.
\<close>

record Cookie =
  Name :: string
  Path :: string
  HttpOnly :: bool
  Value :: string
  MaxAge :: int
  Expires :: "int option"

text \<open>
  A redirect goes either to a path of the server or to the URL the library builds from a
  client's authorization URI and the temporary credentials (\<open>Client.AuthorizationURL\<close>).
\<close>

datatype location =
    LocalPath string
  | AuthorizationURL string Credentials

text \<open>
  \<open>Error msg code\<close> is \<open>http.Error\<close>; \<open>Redirect cookies url code\<close> is the cookies set
  with \<open>http.SetCookie\<close> followed by \<open>http.Redirect\<close>; \<open>Respond t data\<close> is \<open>respond\<close>
  with the template named \<open>t\<close> (executing the template is not modelled) and its data,
  \<open>None\<close> for \<open>nil\<close>.
\<close>

datatype 'a response =
    Error string int
  | Redirect "Cookie list" location int
  | Respond string "'a option"

subsection \<open>Handlers of the authorization flow\<close>

text \<open>
  \<open>host\<close> is \<open>r.Host\<close>. \<open>rtc\<close> is the library's \<open>RequestTemporaryCredentials\<close> for this
  call: from the client and the callback URL to an error or the temporary credentials.
\<close>

definition serveSignin ::
  "(Client \<Rightarrow> string \<Rightarrow> err + Credentials) \<Rightarrow> string \<Rightarrow> server \<Rightarrow> server \<times> 'a response" where
  "serveSignin rtc host s =
     (let callback = ''http://'' @ host @ ''/callback'' in
      case rtc (signinOAuthClient s) callback of
        Inl e \<Rightarrow> (s, Error (''Error getting temp cred, '' @ e) 500)
      | Inr tempCred \<Rightarrow>
          (putCredentials tempCred s,
           Redirect [] (AuthorizationURL (ResourceOwnerAuthorizationURI (signinOAuthClient s)) tempCred) 302))"

definition serveAuthorize ::
  "(Client \<Rightarrow> string \<Rightarrow> err + Credentials) \<Rightarrow> string \<Rightarrow> server \<Rightarrow> server \<times> 'a response" where
  "serveAuthorize rtc host s =
     (let callback = ''http://'' @ host @ ''/callback'' in
      case rtc (oauthClient s) callback of
        Inl e \<Rightarrow> (s, Error (''Error getting temp cred, '' @ e) 500)
      | Inr tempCred \<Rightarrow>
          (putCredentials tempCred s,
           Redirect [] (AuthorizationURL (ResourceOwnerAuthorizationURI (oauthClient s)) tempCred) 302))"

text \<open>
  \<open>oauth_token\<close> and \<open>oauth_verifier\<close> are the two form values of the request. \<open>rt\<close> is the
  library's \<open>RequestToken\<close> for this call: from the client, the temporary credentials and
  the verifier to an error or the token credentials.
\<close>

definition serveOAuthCallback ::
  "(Client \<Rightarrow> Credentials \<Rightarrow> string \<Rightarrow> err + Credentials) \<Rightarrow> string \<Rightarrow> string \<Rightarrow> server
     \<Rightarrow> server \<times> 'a response" where
  "serveOAuthCallback rt oauth_token oauth_verifier s =
     (case getCredentials s oauth_token of
        None \<Rightarrow> (s, Error ''Unknown oauth_token.'' 500)
      | Some tempCred \<Rightarrow>
          (let s1 = deleteCredentials (Token tempCred) s in
           case rt (oauthClient s1) tempCred oauth_verifier of
             Inl e \<Rightarrow> (s1, Error (''Error getting request token, '' @ e) 500)
           | Inr tokenCred \<Rightarrow>
               (putCredentials tokenCred s1,
                Redirect [\<lparr>Name = ''auth'', Path = ''/'', HttpOnly = True,
                           Value = Token tokenCred, MaxAge = 0, Expires = None\<rparr>]
                         (LocalPath ''/'') 302)))"

text \<open>\<open>now\<close> is \<open>time.Now()\<close> in seconds; one hour is 3600 of them.\<close>

definition serveLogout :: "int \<Rightarrow> server \<Rightarrow> server \<times> 'a response" where
  "serveLogout now s =
     (s, Redirect [\<lparr>Name = ''auth'', Path = ''/'', HttpOnly = True,
                    Value = [], MaxAge = - 1, Expires = Some (now + (- 1) * 3600)\<rparr>]
                  (LocalPath ''/'') 302)"

text \<open>
  \<open>authHandler.ServeHTTP\<close>: \<open>cookie\<close> is the value of the request's cookie \<open>auth\<close>, if the
  request has one; \<open>handler\<close> and \<open>optional\<close> are the two fields of the \<open>authHandler\<close>.
\<close>

definition ServeHTTP ::
  "(Credentials option \<Rightarrow> server \<Rightarrow> server \<times> 'a response) \<Rightarrow> bool \<Rightarrow> string option \<Rightarrow> server
     \<Rightarrow> server \<times> 'a response" where
  "ServeHTTP handler optional cookie s =
     (let cred = (case cookie of Some v \<Rightarrow> getCredentials s v | None \<Rightarrow> None) in
      if cred = None \<and> \<not> optional then (s, Error ''Not logged in.'' 403)
      else handler cred s)"

subsection \<open>Signed API client\<close>

text \<open>
  A response body is a stream: \<open>Data\<close> is what it delivers and \<open>ReadErr\<close> the error that
  ends it, \<open>None\<close> when it ends with EOF. \<open>ioutil.ReadAll\<close> returns both.
\<close>

record reader =
  Data :: string
  ReadErr :: "err option"

definition ReadAll :: "reader \<Rightarrow> string \<times> err option" where
  "ReadAll b = (Data b, ReadErr b)"

text \<open>\<open>RequestURL\<close> is \<open>resp.Request.URL\<close>, printed.\<close>

record Response =
  StatusCode :: int
  Body :: reader
  RequestURL :: string

type_synonym Values = "(string \<times> string list) list"

text \<open>The verb \<open>%d\<close> of \<open>fmt\<close>: an integer in decimal.\<close>

fun digits :: "nat \<Rightarrow> string" where
  "digits n =
     (if n < 10 then [''0123456789'' ! n]
      else digits (n div 10) @ [''0123456789'' ! (n mod 10)])"

declare digits.simps [simp del]

definition itoa :: "int \<Rightarrow> string" where
  "itoa i = (if i < 0 then CHR ''-'' # digits (nat (- i)) else digits (nat i))"

text \<open>
  \<open>decode\<close> is \<open>json.NewDecoder(resp.Body).Decode(data)\<close>: from the body to an error or the
  value decoded into the caller's \<open>data\<close>. It is an argument here; the section on JSON
  decoding gives a decoder to pass for it.
\<close>

definition decodeResponse :: "(reader \<Rightarrow> err + 'a) \<Rightarrow> Response \<Rightarrow> err + 'a" where
  "decodeResponse decode resp =
     (if StatusCode resp \<noteq> 200 then
        (case ReadAll (Body resp) of
           (p, _) \<Rightarrow>
             Inl (''Get '' @ RequestURL resp @ '' returned status '' @ itoa (StatusCode resp)
                  @ '', '' @ p))
      else decode (Body resp))"

text \<open>
  \<open>get\<close> and \<open>post\<close> are the library's signed \<open>Client.Get\<close> and \<open>Client.Post\<close> for this
  call: from the client, the credentials, the URL and the form to an error or the response.
\<close>

definition apiGet ::
  "(Client \<Rightarrow> Credentials option \<Rightarrow> string \<Rightarrow> Values \<Rightarrow> err + Response) \<Rightarrow> (reader \<Rightarrow> err + 'a)
     \<Rightarrow> server \<Rightarrow> Credentials option \<Rightarrow> string \<Rightarrow> Values \<Rightarrow> err + 'a" where
  "apiGet get decode s cred urlStr form =
     (case get (oauthClient s) cred urlStr form of
        Inl e \<Rightarrow> Inl e
      | Inr resp \<Rightarrow> decodeResponse decode resp)"

definition apiPost ::
  "(Client \<Rightarrow> Credentials option \<Rightarrow> string \<Rightarrow> Values \<Rightarrow> err + Response) \<Rightarrow> (reader \<Rightarrow> err + 'a)
     \<Rightarrow> server \<Rightarrow> Credentials option \<Rightarrow> string \<Rightarrow> Values \<Rightarrow> err + 'a" where
  "apiPost post decode s cred urlStr form =
     (case post (oauthClient s) cred urlStr form of
        Inl e \<Rightarrow> Inl e
      | Inr resp \<Rightarrow> decodeResponse decode resp)"

subsection \<open>Views\<close>

definition serveHome :: "string \<Rightarrow> Credentials option \<Rightarrow> server \<Rightarrow> server \<times> 'a response" where
  "serveHome path cred s =
     (if path \<noteq> ''/'' then (s, Error ''404 page not found'' 404)
      else if cred = None then (s, Respond ''loggedout'' None)
      else (s, Respond ''home'' None))"




subsection \<open>The process: start-up and the route table of \<open>main\<close>\<close>


text \<open>The package-level variables as their initialisers leave them.\<close>

definition init :: server where
  "init =
     \<lparr>oauthClient =
        \<lparr>Credentials = \<lparr>Token = [], Secret = []\<rparr>,
         TemporaryCredentialRequestURI = ''http://api.twitter.com/oauth/request_token'',
         ResourceOwnerAuthorizationURI = ''http://api.twitter.com/oauth/authorize'',
         TokenRequestURI = ''http://api.twitter.com/oauth/access_token''\<rparr>,
      signinOAuthClient =
        \<lparr>Credentials = \<lparr>Token = [], Secret = []\<rparr>,
         TemporaryCredentialRequestURI = [],
         ResourceOwnerAuthorizationURI = [],
         TokenRequestURI = []\<rparr>,
      secrets = Map.empty,
      configReads = 0\<rparr>"


text \<open>
  One request as a handler sees it, together with what the collaborators answer while it
  is served.
\<close>

record 'a Request =
  Host :: string
  URLPath :: string
  AuthCookie :: "string option"
  oauth_token :: string
  oauth_verifier :: string
  RequestTemporaryCredentials :: "Client \<Rightarrow> string \<Rightarrow> err + Credentials"
  RequestToken :: "Client \<Rightarrow> Credentials \<Rightarrow> string \<Rightarrow> err + Credentials"
  Get :: "Client \<Rightarrow> Credentials option \<Rightarrow> string \<Rightarrow> Values \<Rightarrow> err + Response"
  Post :: "Client \<Rightarrow> Credentials option \<Rightarrow> string \<Rightarrow> Values \<Rightarrow> err + Response"
  Decode :: "reader \<Rightarrow> err + 'a"
  Now :: int




text \<open>A sequence of calls of the three functions of the credential store.\<close>

datatype store_call = Put Credentials | Lookup string | Delete string

text \<open>The token whose entry a call writes, if it writes one.\<close>

fun store_writes :: "store_call \<Rightarrow> string option" where
  "store_writes (Put c) = Some (Token c)"
| "store_writes (Lookup t) = None"
| "store_writes (Delete t) = Some t"

fun store_step :: "store_call \<Rightarrow> server \<Rightarrow> server" where
  "store_step (Put c) s = putCredentials c s"
| "store_step (Lookup t) s = s"
| "store_step (Delete t) s = deleteCredentials t s"

fun store_run :: "store_call list \<Rightarrow> server \<Rightarrow> server" where
  "store_run [] s = s"
| "store_run (c # cs) s = store_run cs (store_step c s)"

section \<open>Command-line example (Plurk)\<close>

record PlurkCredentials =
  ConsumerToken :: string
  ConsumerSecret :: string
  AccessToken :: string
  AccessSecret :: string

definition baseURL :: string where
  "baseURL = ''https://www.plurk.com''"

text \<open>The requests the process makes to the remote service.\<close>

datatype remote_call =
    TemporaryCredentialRequest Client string
  | TokenRequest Client Credentials string
  | PostForm string Values

text \<open>
  The process and what it acts on: its package-level client (named \<open>oauthClient\<close> in the
  source, as the server's is), the configuration file (\<open>Inl\<close> when reading it fails), the
  requests made to the remote service so far, oldest first, and the number of calls of
  \<open>ioutil.ReadFile\<close> on the configuration path made so far.
\<close>

record process =
  oauthClient' :: Client
  credFile :: "err + string"
  sent :: "remote_call list"
  configReads' :: nat

text \<open>
  A call either returns, or ends the process: \<open>log.Fatal\<close> with its message, or the panic of
  a nil dereference.
\<close>

datatype 'a exit = Fatal string | Panic | Return 'a

text \<open>
  \<open>unmarshal\<close> is \<open>json.Unmarshal\<close> into a fresh \<open>PlurkCredentials\<close>. The result is what
  the Go function returns, with the process after the read.
\<close>

definition ReadCredentials ::
  "(string \<Rightarrow> err + PlurkCredentials) \<Rightarrow> process \<Rightarrow> (err + PlurkCredentials) \<times> process" where
  "ReadCredentials unmarshal p =
     (let p1 = p\<lparr>configReads' := configReads' p + 1\<rparr> in
      case credFile p of
        Inl e \<Rightarrow> (Inl e, p1)
      | Inr b \<Rightarrow> (case unmarshal b of Inl e \<Rightarrow> (Inl e, p1) | Inr cred \<Rightarrow> (Inr cred, p1)))"

text \<open>
  \<open>pinCode\<close> is what \<open>fmt.Scan\<close> reads; \<open>rt\<close> is the library's \<open>RequestToken\<close> for this call.
  The result is the pair the Go function returns: the credentials and the error.
\<close>

definition doAuth ::
  "(Client \<Rightarrow> Credentials \<Rightarrow> string \<Rightarrow> err + Credentials) \<Rightarrow> string \<Rightarrow> Credentials \<Rightarrow> process
     \<Rightarrow> (Credentials option \<times> err option) exit \<times> process" where
  "doAuth rt pinCode requestToken p =
     (let p1 = p\<lparr>sent := sent p @ [TokenRequest (oauthClient' p) requestToken pinCode]\<rparr> in
      case rt (oauthClient' p) requestToken pinCode of
        Inl e \<Rightarrow> (Fatal (''failed to request token:'' @ e), p1)
      | Inr accessToken \<Rightarrow> (Return (Some accessToken, None), p1))"

text \<open>
  \<open>cred\<close> is passed by pointer, so the value it has afterwards is returned with the result:
  the token, \<open>authorized\<close> and the error. \<open>rtc\<close> is the library's
  \<open>RequestTemporaryCredentials\<close> for this call.
\<close>

definition GetAccessToken ::
  "(Client \<Rightarrow> string \<Rightarrow> err + Credentials) \<Rightarrow> (Client \<Rightarrow> Credentials \<Rightarrow> string \<Rightarrow> err + Credentials)
     \<Rightarrow> string \<Rightarrow> PlurkCredentials \<Rightarrow> process
     \<Rightarrow> (Credentials option \<times> bool \<times> err option) exit \<times> PlurkCredentials \<times> process" where
  "GetAccessToken rtc rt pinCode cred p =
     (let p0 = p\<lparr>oauthClient' := (oauthClient' p)
                   \<lparr>Credentials := \<lparr>Token = ConsumerToken cred, Secret = ConsumerSecret cred\<rparr>\<rparr>\<rparr>
      in
      if AccessToken cred \<noteq> [] \<and> AccessSecret cred \<noteq> [] then
        (Return (Some \<lparr>Token = AccessToken cred, Secret = AccessSecret cred\<rparr>, False, None),
         cred, p0)
      else
        (let p1 = p0\<lparr>sent := sent p0 @ [TemporaryCredentialRequest (oauthClient' p0) []]\<rparr> in
         case rtc (oauthClient' p0) [] of
           Inl e \<Rightarrow> (Return (None, False, Some e), cred, p1)
         | Inr requestToken \<Rightarrow>
             (case doAuth rt pinCode requestToken p1 of
                (Fatal m, p2) \<Rightarrow> (Fatal m, cred, p2)
              | (Panic, p2) \<Rightarrow> (Panic, cred, p2)
              | (Return (_, Some e), p2) \<Rightarrow> (Return (None, False, Some e), cred, p2)
              | (Return (None, None), p2) \<Rightarrow> (Panic, cred, p2)
              | (Return (Some token, None), p2) \<Rightarrow>
                  (Return (Some token, True, None),
                   cred\<lparr>AccessToken := Token token, AccessSecret := Secret token\<rparr>, p2))))"

definition getAccessToken ::
  "(PlurkCredentials \<Rightarrow> process \<Rightarrow> 'r) \<Rightarrow> PlurkCredentials \<Rightarrow> process \<Rightarrow> 'r" where
  "getAccessToken impl cred p = impl cred p"

text \<open>
  \<open>callAPI_impl\<close> is the function \<open>callAPI_\<close> of the source. \<open>opt\<close> is a Go map, here its
  entries. \<open>sign\<close> is the library's \<open>SignParam\<close>: the form with the OAuth parameters
  added. \<open>postForm\<close> is \<open>http.PostForm\<close> for this call.
\<close>

definition callAPI_impl ::
  "(Client \<Rightarrow> Credentials option \<Rightarrow> string \<Rightarrow> string \<Rightarrow> Values \<Rightarrow> Values)
     \<Rightarrow> (string \<Rightarrow> Values \<Rightarrow> err + Response)
     \<Rightarrow> Credentials option \<Rightarrow> string \<Rightarrow> (string \<times> string) list \<Rightarrow> process
     \<Rightarrow> (err + string) \<times> process" where
  "callAPI_impl sign postForm token url opt p =
     (let apiURL = baseURL @ url;
          param = sign (oauthClient' p) token ''POST'' apiURL (map (\<lambda>(k, v). (k, [v])) opt);
          p1 = p\<lparr>sent := sent p @ [PostForm apiURL param]\<rparr>
      in
      case postForm apiURL param of
        Inl e \<Rightarrow> (Inl e, p1)
      | Inr res \<Rightarrow>
          (case ReadAll (Body res) of
             (body, Some e) \<Rightarrow> (Inl e, p1)
           | (body, None) \<Rightarrow>
               if StatusCode res \<noteq> 200 then (Inl body, p1) else (Inr body, p1)))"

definition callAPI ::
  "(Credentials option \<Rightarrow> string \<Rightarrow> (string \<times> string) list \<Rightarrow> process \<Rightarrow> 'r)
     \<Rightarrow> Credentials option \<Rightarrow> string \<Rightarrow> (string \<times> string) list \<Rightarrow> process \<Rightarrow> 'r" where
  "callAPI impl token url opt p = impl token url opt p"

definition CallAPI ::
  "(Client \<Rightarrow> Credentials option \<Rightarrow> string \<Rightarrow> string \<Rightarrow> Values \<Rightarrow> Values)
     \<Rightarrow> (string \<Rightarrow> Values \<Rightarrow> err + Response)
     \<Rightarrow> Credentials option \<Rightarrow> string \<Rightarrow> (string \<times> string) list \<Rightarrow> process
     \<Rightarrow> (err + string) \<times> process" where
  "CallAPI sign postForm token url opt p = callAPI (callAPI_impl sign postForm) token url opt p"

text \<open>
  \<open>marshal\<close> is \<open>json.MarshalIndent\<close> and \<open>writeFile\<close> what \<open>ioutil.WriteFile\<close> returns for the
  bytes it is given, \<open>None\<close> when it wrote them. The error of \<open>GetAccessToken\<close> is not looked
  at. The result is what the process prints last.
\<close>

definition main ::
  "(string \<Rightarrow> err + PlurkCredentials) \<Rightarrow> (Client \<Rightarrow> string \<Rightarrow> err + Credentials)
     \<Rightarrow> (Client \<Rightarrow> Credentials \<Rightarrow> string \<Rightarrow> err + Credentials) \<Rightarrow> string
     \<Rightarrow> (PlurkCredentials \<Rightarrow> err + string) \<Rightarrow> (string \<Rightarrow> err option)
     \<Rightarrow> (Client \<Rightarrow> Credentials option \<Rightarrow> string \<Rightarrow> string \<Rightarrow> Values \<Rightarrow> Values)
     \<Rightarrow> (string \<Rightarrow> Values \<Rightarrow> err + Response)
     \<Rightarrow> process \<Rightarrow> string exit \<times> process" where
  "main unmarshal rtc rt pinCode marshal writeFile sign postForm p =
     (case ReadCredentials unmarshal p of
        (Inl e, p0) \<Rightarrow> (Fatal (''Error reading credential, '' @ e), p0)
      | (Inr plurkOAuth0, p0) \<Rightarrow>
          (case GetAccessToken rtc rt pinCode plurkOAuth0 p0 of
             (Fatal m, _, p1) \<Rightarrow> (Fatal m, p1)
           | (Panic, _, p1) \<Rightarrow> (Panic, p1)
           | (Return (accessToken, authorized, _), plurkOAuth, p1) \<Rightarrow>
               (let stored =
                  (if authorized then
                     (case marshal plurkOAuth of
                        Inl e \<Rightarrow> (Fatal (''failed to store credential: '' @ e), p1)
                      | Inr bytes \<Rightarrow>
                          (case writeFile bytes of
                             Some e \<Rightarrow> (Fatal (''failed to write credential: %v'' @ e), p1)
                           | None \<Rightarrow> (Return (), p1\<lparr>credFile := Inr bytes\<rparr>)))
                   else (Return (), p1))
                in
                case stored of
                  (Fatal m, p2) \<Rightarrow> (Fatal m, p2)
                | (Panic, p2) \<Rightarrow> (Panic, p2)
                | (Return _, p2) \<Rightarrow>
                    (case CallAPI sign postForm accessToken ''/APP/Profile/getOwnProfile'' [] p2 of
                       (Inl e, p3) \<Rightarrow> (Fatal (''failed: '' @ e), p3)
                     | (Inr result, p3) \<Rightarrow> (Return result, p3)))))"

text \<open>The process as its package-level initialisers leave it, given the configuration file.\<close>

definition start :: "err + string \<Rightarrow> process" where
  "start f =
     \<lparr>oauthClient' =
        \<lparr>Credentials = \<lparr>Token = [], Secret = []\<rparr>,
         TemporaryCredentialRequestURI = ''https://www.plurk.com/OAuth/request_token'',
         ResourceOwnerAuthorizationURI = ''https://www.plurk.com/OAuth/authorize'',
         TokenRequestURI = ''https://www.plurk.com/OAuth/access_token''\<rparr>,
      credFile = f,
      sent = [],
      configReads' = 0\<rparr>"

section \<open>JSON decoding\<close>

text \<open>
  Modelled from the spec: the JSON decoder. The server decodes a body with
  \<open>json.NewDecoder(resp.Body).Decode(data)\<close> of Go's standard library, which is not part of
  the repository. The spec has the body decoded "as JSON into a generic structure (mapping
  of string to dynamically-typed value, or ordered sequence thereof)", "a schema-less tree
  value (string keys, recursively nested scalar/sequence/mapping values)", with a
  \<open>DecodeError\<close> for malformed JSON. The decoder below reads the grammar of JSON (RFC 8259)
  into that tree. A number is kept as its literal. An object is its members in the order
  of the text; of two members with the same key the later one stays, as in a Go map.
\<close>

datatype json =
    JNull
  | JBool bool
  | JNumber string
  | JString string
  | JArray "json list"
  | JObject "(string \<times> json) list"

text \<open>
  What reading a piece of the text gives: the piece read and the text after it, or the
  text is not JSON at this point, or it ends before the piece is complete.
\<close>

datatype 'a parsed = Parsed 'a string | Malformed | Incomplete

definition and_then :: "'a parsed \<Rightarrow> ('a \<Rightarrow> string \<Rightarrow> 'b parsed) \<Rightarrow> 'b parsed" where
  "and_then p f =
     (case p of Parsed a r \<Rightarrow> f a r | Malformed \<Rightarrow> Malformed | Incomplete \<Rightarrow> Incomplete)"

lemma and_then_cong [fundef_cong]:
  assumes "p = q" and "\<And>a r. q = Parsed a r \<Longrightarrow> f a r = g a r"
  shows "and_then p f = and_then q g"
  using assms by (simp add: and_then_def split: parsed.splits)

abbreviation quote :: char where "quote \<equiv> CHR 0x22"


text \<open>White space is space, tab, line feed and carriage return.\<close>

definition is_space :: "char \<Rightarrow> bool" where
  "is_space c \<longleftrightarrow> c = CHR '' '' \<or> c = CHR 0x09 \<or> c = CHR 0x0A \<or> c = CHR 0x0D"













































section \<open>Properties\<close>

subsection \<open>Credential store\<close>

lemma secrets_store_step:
  "store_writes k \<noteq> Some t \<Longrightarrow> secrets (store_step k s) t = secrets s t"
  by (cases k) (auto simp: putCredentials_def deleteCredentials_def)

lemma secrets_store_run:
  "\<forall>k \<in> set calls. store_writes k \<noteq> Some t \<Longrightarrow> secrets (store_run calls s) t = secrets s t"
  by (induction calls arbitrary: s) (simp_all add: secrets_store_step)

lemma getCredentials_put: "getCredentials (putCredentials c s) (Token c) = Some c"
  by (simp add: getCredentials_def putCredentials_def)

lemma getCredentials_None: "getCredentials s t = None \<longleftrightarrow> secrets s t = None"
  by (simp add: getCredentials_def split: option.splits)

text \<open>
  C2. What \<open>putCredentials\<close> stores under a token is what \<open>getCredentials\<close> returns for it:
  at once, and after any further calls of the store none of which puts or deletes that
  token. A second put with the same token replaces the pair. After \<open>deleteCredentials\<close> the
  token is not found, and deleting a token that is not there leaves the store as it was.
\<close>

theorem store_round_trip:
  "getCredentials (putCredentials c s) (Token c) = Some c
   \<and> ((\<forall>k \<in> set calls. store_writes k \<noteq> Some (Token c)) \<longrightarrow>
        getCredentials (store_run calls (putCredentials c s)) (Token c) = Some c)
   \<and> (Token c' = Token c \<longrightarrow>
        getCredentials (putCredentials c' (putCredentials c s)) (Token c) = Some c')
   \<and> getCredentials (deleteCredentials t s) t = None
   \<and> (getCredentials s t = None \<longrightarrow> deleteCredentials t s = s)"
proof (intro conjI impI)
  show "getCredentials (putCredentials c s) (Token c) = Some c"
    by (rule getCredentials_put)
next
  assume "\<forall>k \<in> set calls. store_writes k \<noteq> Some (Token c)"
  then have "secrets (store_run calls (putCredentials c s)) (Token c)
             = secrets (putCredentials c s) (Token c)"
    by (rule secrets_store_run)
  then show "getCredentials (store_run calls (putCredentials c s)) (Token c) = Some c"
    using getCredentials_put [of c s] by (simp add: getCredentials_def)
next
  assume "Token c' = Token c"
  then show "getCredentials (putCredentials c' (putCredentials c s)) (Token c) = Some c'"
    using getCredentials_put [of c' "putCredentials c s"] by simp
next
  show "getCredentials (deleteCredentials t s) t = None"
    by (simp add: getCredentials_def deleteCredentials_def)
next
  assume "getCredentials s t = None"
  then have "secrets s t = None"
    by (simp add: getCredentials_None)
  then have "(secrets s)(t := None) = secrets s"
    by (simp add: fun_upd_idem)
  then show "deleteCredentials t s = s"
    by (simp add: deleteCredentials_def)
qed

theorem store_round_trip_witness:
  "Some ''t1'' \<notin> set (map store_writes
       [Put \<lparr>Token = ''t2'', Secret = ''s2''\<rparr>, Lookup ''t1'', Delete ''t3''])
   \<and> getCredentials
        (store_run [Put \<lparr>Token = ''t2'', Secret = ''s2''\<rparr>, Lookup ''t1'', Delete ''t3'']
           (putCredentials \<lparr>Token = ''t1'', Secret = ''s1''\<rparr> init)) ''t1''
       = Some \<lparr>Token = ''t1'', Secret = ''s1''\<rparr>
   \<and> getCredentials
        (putCredentials \<lparr>Token = ''t1'', Secret = ''s9''\<rparr>
           (putCredentials \<lparr>Token = ''t1'', Secret = ''s1''\<rparr> init)) ''t1''
       = Some \<lparr>Token = ''t1'', Secret = ''s9''\<rparr>
   \<and> getCredentials init ''t4'' = None
   \<and> deleteCredentials ''t4'' init = init"
  using store_round_trip
    [of "\<lparr>Token = ''t1'', Secret = ''s1''\<rparr>" init
        "[Put \<lparr>Token = ''t2'', Secret = ''s2''\<rparr>, Lookup ''t1'', Delete ''t3'']"
        "\<lparr>Token = ''t1'', Secret = ''s9''\<rparr>" "''t4''"]
  by (simp add: getCredentials_def init_def)

subsection \<open>Authorization flow of the server\<close>

lemma callback_absent:
  "getCredentials s T = None \<Longrightarrow>
     serveOAuthCallback rt T v s = (s, Error ''Unknown oauth_token.'' 500)"
  by (simp add: serveOAuthCallback_def)

lemma callback_present:
  "getCredentials s T = Some tc \<Longrightarrow>
     serveOAuthCallback rt T v s =
       (case rt (oauthClient s) tc v of
          Inl e \<Rightarrow> (deleteCredentials T s, Error (''Error getting request token, '' @ e) 500)
        | Inr tokenCred \<Rightarrow>
            (putCredentials tokenCred (deleteCredentials T s),
             Redirect [\<lparr>Name = ''auth'', Path = ''/'', HttpOnly = True,
                        Value = Token tokenCred, MaxAge = 0, Expires = None\<rparr>]
                      (LocalPath ''/'') 302))"
  by (auto simp: serveOAuthCallback_def getCredentials_def deleteCredentials_def Let_def
      split: option.splits sum.splits)

lemma callback_unknown_iff:
  "snd (serveOAuthCallback rt T v s) = (Error ''Unknown oauth_token.'' 500 :: 'a response)
     \<longleftrightarrow> getCredentials s T = None"
proof (cases "getCredentials s T")
  case None
  then show ?thesis by (simp add: callback_absent)
next
  case (Some tc)
  then show ?thesis by (simp add: callback_present split: sum.splits)
qed

lemma getCredentials_put_other:
  "Token c \<noteq> T \<Longrightarrow> getCredentials (putCredentials c s) T = getCredentials s T"
  by (simp add: getCredentials_def putCredentials_def)

lemma getCredentials_delete: "getCredentials (deleteCredentials T s) T = None"
  by (simp add: getCredentials_def deleteCredentials_def)

text \<open>
  C1, as amended. The callback is rejected with \<open>Unknown oauth_token.\<close> exactly when its
  token is not a key of the store, whatever the verifier and whatever the library would
  answer; a rejected callback changes nothing. After a callback for \<open>T\<close> that succeeded
  with token credentials under another token, a further callback for \<open>T\<close> is rejected.
\<close>

theorem callback_unknown_token:
  "((snd (serveOAuthCallback rt T v s) = (Error ''Unknown oauth_token.'' 500 :: 'a response))
      = (getCredentials s T = None))
   \<and> ((snd (serveOAuthCallback rt T v s) = (Error ''Unknown oauth_token.'' 500 :: 'a response))
      = (snd (serveOAuthCallback rt' T v' s) = (Error ''Unknown oauth_token.'' 500 :: 'a response)))
   \<and> (getCredentials s T = None \<longrightarrow>
        serveOAuthCallback rt T v s = (s, Error ''Unknown oauth_token.'' 500 :: 'a response))
   \<and> (getCredentials s T = Some tc \<and> rt (oauthClient s) tc v = Inr tok \<and> Token tok \<noteq> T \<longrightarrow>
        serveOAuthCallback rt' T v' (fst (serveOAuthCallback rt T v s :: server \<times> 'a response))
          = (fst (serveOAuthCallback rt T v s :: server \<times> 'a response),
             Error ''Unknown oauth_token.'' 500 :: 'a response))"
proof (intro conjI impI)
  show "(snd (serveOAuthCallback rt T v s) = (Error ''Unknown oauth_token.'' 500 :: 'a response))
          = (getCredentials s T = None)"
    by (rule callback_unknown_iff)
next
  show "(snd (serveOAuthCallback rt T v s) = (Error ''Unknown oauth_token.'' 500 :: 'a response))
      = (snd (serveOAuthCallback rt' T v' s) = (Error ''Unknown oauth_token.'' 500 :: 'a response))"
    by (simp only: callback_unknown_iff)
next
  assume "getCredentials s T = None"
  then show "serveOAuthCallback rt T v s = (s, Error ''Unknown oauth_token.'' 500 :: 'a response)"
    by (rule callback_absent)
next
  assume a: "getCredentials s T = Some tc \<and> rt (oauthClient s) tc v = Inr tok \<and> Token tok \<noteq> T"
  then have "fst (serveOAuthCallback rt T v s :: server \<times> 'a response)
               = putCredentials tok (deleteCredentials T s)"
    by (simp add: callback_present)
  moreover have "getCredentials (putCredentials tok (deleteCredentials T s)) T = None"
    using a by (simp add: getCredentials_put_other getCredentials_delete)
  ultimately show
    "serveOAuthCallback rt' T v' (fst (serveOAuthCallback rt T v s :: server \<times> 'a response))
       = (fst (serveOAuthCallback rt T v s :: server \<times> 'a response),
          Error ''Unknown oauth_token.'' 500 :: 'a response)"
    by (simp add: callback_absent)
qed
theorem callback_unknown_token_witness:
  "getCredentials init ''tmp'' = None
   \<and> serveOAuthCallback (\<lambda>c t v. Inr \<lparr>Token = ''acc'', Secret = ''as''\<rparr>) ''tmp'' ''v'' init
       = (init, Error ''Unknown oauth_token.'' 500 :: unit response)
   \<and> getCredentials (putCredentials \<lparr>Token = ''tmp'', Secret = ''ts''\<rparr> init) ''tmp''
       = Some \<lparr>Token = ''tmp'', Secret = ''ts''\<rparr>
   \<and> serveOAuthCallback (\<lambda>c t v. Inr \<lparr>Token = ''acc'', Secret = ''as''\<rparr>) ''tmp'' ''v''
        (fst (serveOAuthCallback (\<lambda>c t v. Inr \<lparr>Token = ''acc'', Secret = ''as''\<rparr>) ''tmp'' ''v''
                (putCredentials \<lparr>Token = ''tmp'', Secret = ''ts''\<rparr> init)
              :: server \<times> unit response))
       = (fst (serveOAuthCallback (\<lambda>c t v. Inr \<lparr>Token = ''acc'', Secret = ''as''\<rparr>) ''tmp'' ''v''
                (putCredentials \<lparr>Token = ''tmp'', Secret = ''ts''\<rparr> init)
              :: server \<times> unit response),
          Error ''Unknown oauth_token.'' 500 :: unit response)"
  using
    callback_unknown_token
      [where ?'a = unit and s = init and T = "''tmp''" and v = "''v''"
         and rt = "\<lambda>c t v. Inr \<lparr>Token = ''acc'', Secret = ''as''\<rparr>"]
    callback_unknown_token
      [where ?'a = unit and s = "putCredentials \<lparr>Token = ''tmp'', Secret = ''ts''\<rparr> init"
         and T = "''tmp''" and v = "''v''" and v' = "''v''"
         and rt = "\<lambda>c t v. Inr \<lparr>Token = ''acc'', Secret = ''as''\<rparr>"
         and rt' = "\<lambda>c t v. Inr \<lparr>Token = ''acc'', Secret = ''as''\<rparr>"
         and tc = "\<lparr>Token = ''tmp'', Secret = ''ts''\<rparr>"
         and tok = "\<lparr>Token = ''acc'', Secret = ''as''\<rparr>"]
  by (simp add: getCredentials_def putCredentials_def init_def)

text \<open>
  C1, as stated, fails: the store also holds the token credentials that a successful
  callback puts there. After \<open>/authorize\<close> has stored \<open>tmp\<close> and the callback for \<open>tmp\<close> has
  stored the access token \<open>acc\<close>, a callback that presents \<open>acc\<close>, a token no begin call
  stored, is not rejected as unknown: the exchange is attempted with the access
  credentials. If it fails, its error is written and \<open>acc\<close> is gone from the store; if it
  succeeds, a new session cookie is set.
\<close>

theorem callback_unknown_token_counterexample:
  "snd (serveOAuthCallback (\<lambda>c t v. Inl ''401 Unauthorized'') ''acc'' ''v''
         (fst (serveOAuthCallback (\<lambda>c t v. Inr \<lparr>Token = ''acc'', Secret = ''as''\<rparr>) ''tmp'' ''v''
                 (fst (serveAuthorize (\<lambda>c cb. Inr \<lparr>Token = ''tmp'', Secret = ''ts''\<rparr>)
                         ''localhost:8080'' init :: server \<times> unit response))
               :: server \<times> unit response)))
     = (Error ''Error getting request token, 401 Unauthorized'' 500 :: unit response)
   \<and> getCredentials
        (fst (serveOAuthCallback (\<lambda>c t v. Inl ''401 Unauthorized'') ''acc'' ''v''
           (fst (serveOAuthCallback (\<lambda>c t v. Inr \<lparr>Token = ''acc'', Secret = ''as''\<rparr>) ''tmp'' ''v''
                   (fst (serveAuthorize (\<lambda>c cb. Inr \<lparr>Token = ''tmp'', Secret = ''ts''\<rparr>)
                           ''localhost:8080'' init :: server \<times> unit response))
                 :: server \<times> unit response))
         :: server \<times> unit response)) ''acc''
     = None
   \<and> snd (serveOAuthCallback (\<lambda>c t v. Inr \<lparr>Token = ''acc2'', Secret = ''as2''\<rparr>) ''acc'' ''v''
         (fst (serveOAuthCallback (\<lambda>c t v. Inr \<lparr>Token = ''acc'', Secret = ''as''\<rparr>) ''tmp'' ''v''
                 (fst (serveAuthorize (\<lambda>c cb. Inr \<lparr>Token = ''tmp'', Secret = ''ts''\<rparr>)
                         ''localhost:8080'' init :: server \<times> unit response))
               :: server \<times> unit response)))
     = (Redirect [\<lparr>Name = ''auth'', Path = ''/'', HttpOnly = True,
                   Value = ''acc2'', MaxAge = 0, Expires = None\<rparr>]
                 (LocalPath ''/'') 302 :: unit response)"
  by (simp add: serveOAuthCallback_def serveAuthorize_def getCredentials_def putCredentials_def
      deleteCredentials_def init_def)

text \<open>
  C3, as amended. When the exchange fails, the error is written to the caller, and the
  temporary credentials are gone from the store: they were deleted before the exchange.
  Nothing else in the store changes, and a retry with the same token is rejected with
  \<open>Unknown oauth_token.\<close>.
\<close>

theorem exchange_failure_discards:
  "getCredentials s T = Some tc \<and> rt (oauthClient s) tc v = Inl e \<longrightarrow>
     serveOAuthCallback rt T v s
       = (deleteCredentials T s, Error (''Error getting request token, '' @ e) 500 :: 'a response)
     \<and> getCredentials (deleteCredentials T s) T = None
     \<and> (\<forall>T'. T' \<noteq> T \<longrightarrow> getCredentials (deleteCredentials T s) T' = getCredentials s T')
     \<and> serveOAuthCallback rt' T v' (deleteCredentials T s)
       = (deleteCredentials T s, Error ''Unknown oauth_token.'' 500 :: 'a response)"
proof (intro impI)
  assume a: "getCredentials s T = Some tc \<and> rt (oauthClient s) tc v = Inl e"
  have 1: "serveOAuthCallback rt T v s
       = (deleteCredentials T s, Error (''Error getting request token, '' @ e) 500 :: 'a response)"
    using a by (simp add: callback_present)
  have 2: "getCredentials (deleteCredentials T s) T = None"
    by (rule getCredentials_delete)
  have 3: "\<forall>T'. T' \<noteq> T \<longrightarrow> getCredentials (deleteCredentials T s) T' = getCredentials s T'"
    by (simp add: getCredentials_def deleteCredentials_def)
  have 4: "serveOAuthCallback rt' T v' (deleteCredentials T s)
       = (deleteCredentials T s, Error ''Unknown oauth_token.'' 500 :: 'a response)"
    using 2 by (rule callback_absent)
  from 1 2 3 4 show
    "serveOAuthCallback rt T v s
       = (deleteCredentials T s, Error (''Error getting request token, '' @ e) 500 :: 'a response)
     \<and> getCredentials (deleteCredentials T s) T = None
     \<and> (\<forall>T'. T' \<noteq> T \<longrightarrow> getCredentials (deleteCredentials T s) T' = getCredentials s T')
     \<and> serveOAuthCallback rt' T v' (deleteCredentials T s)
       = (deleteCredentials T s, Error ''Unknown oauth_token.'' 500 :: 'a response)"
    by blast
qed

theorem exchange_failure_discards_witness:
  "getCredentials (putCredentials \<lparr>Token = ''tmp'', Secret = ''ts''\<rparr> init) ''tmp''
     = Some \<lparr>Token = ''tmp'', Secret = ''ts''\<rparr>
   \<and> snd (serveOAuthCallback (\<lambda>c t v. Inl ''401 Unauthorized'') ''tmp'' ''v''
           (putCredentials \<lparr>Token = ''tmp'', Secret = ''ts''\<rparr> init))
     = (Error ''Error getting request token, 401 Unauthorized'' 500 :: unit response)
   \<and> snd (serveOAuthCallback (\<lambda>c t v. Inr \<lparr>Token = ''acc'', Secret = ''as''\<rparr>) ''tmp'' ''v''
           (deleteCredentials ''tmp'' (putCredentials \<lparr>Token = ''tmp'', Secret = ''ts''\<rparr> init)))
     = (Error ''Unknown oauth_token.'' 500 :: unit response)"
  using exchange_failure_discards
      [where ?'a = unit and s = "putCredentials \<lparr>Token = ''tmp'', Secret = ''ts''\<rparr> init"
         and T = "''tmp''" and v = "''v''" and v' = "''v''"
         and rt = "\<lambda>c t v. Inl ''401 Unauthorized''"
         and rt' = "\<lambda>c t v. Inr \<lparr>Token = ''acc'', Secret = ''as''\<rparr>"
         and tc = "\<lparr>Token = ''tmp'', Secret = ''ts''\<rparr>"
         and e = "''401 Unauthorized''"]
  by (simp add: getCredentials_def putCredentials_def init_def)

text \<open>
  C3, as stated, fails: after \<open>/authorize\<close> has stored \<open>tmp\<close>, a callback for \<open>tmp\<close> whose
  exchange fails leaves \<open>tmp\<close> unresolvable.
\<close>

theorem exchange_failure_counterexample:
  "getCredentials
     (fst (serveAuthorize (\<lambda>c cb. Inr \<lparr>Token = ''tmp'', Secret = ''ts''\<rparr>)
             ''localhost:8080'' init :: server \<times> unit response)) ''tmp''
     = Some \<lparr>Token = ''tmp'', Secret = ''ts''\<rparr>
   \<and> getCredentials
       (fst (serveOAuthCallback (\<lambda>c t v. Inl ''401 Unauthorized'') ''tmp'' ''v''
               (fst (serveAuthorize (\<lambda>c cb. Inr \<lparr>Token = ''tmp'', Secret = ''ts''\<rparr>)
                       ''localhost:8080'' init :: server \<times> unit response))
             :: server \<times> unit response)) ''tmp''
     = None"
  by (simp add: serveOAuthCallback_def serveAuthorize_def getCredentials_def putCredentials_def
      deleteCredentials_def init_def)
text \<open>
  C4, as amended. \<open>serveLogout\<close>, from any state, redirects to \<open>/\<close> and expires the cookie
  \<open>auth\<close> (empty value, \<open>MaxAge\<close> below zero, an expiry one hour in the past), and a later
  request without the cookie is refused by a handler that requires credentials. It does
  not touch the store: every lookup answers as before, and a request that still presents
  a stored token is handled with its credentials.
\<close>

theorem logout_keeps_store:
  "fst (serveLogout now s :: server \<times> 'a response) = s
   \<and> getCredentials (fst (serveLogout now s :: server \<times> 'a response)) t = getCredentials s t
   \<and> (\<exists>c. snd (serveLogout now s) = (Redirect [c] (LocalPath ''/'') 302 :: 'a response)
          \<and> Name c = ''auth'' \<and> Value c = [] \<and> MaxAge c < 0 \<and> Expires c = Some (now - 3600))
   \<and> ServeHTTP handler False None (fst (serveLogout now s :: server \<times> 'a response))
       = (s, Error ''Not logged in.'' 403 :: 'b response)
   \<and> (getCredentials s t = Some c' \<longrightarrow>
        ServeHTTP handler optional (Some t) (fst (serveLogout now s :: server \<times> 'a response))
          = (handler (Some c') s :: server \<times> 'b response))"
  by (simp add: serveLogout_def ServeHTTP_def)

theorem logout_keeps_store_witness:
  "getCredentials (putCredentials \<lparr>Token = ''acc'', Secret = ''as''\<rparr> init) ''acc''
     = Some \<lparr>Token = ''acc'', Secret = ''as''\<rparr>
   \<and> ServeHTTP (serveHome ''/'') False (Some ''acc'')
        (fst (serveLogout 7200 (putCredentials \<lparr>Token = ''acc'', Secret = ''as''\<rparr> init)
              :: server \<times> unit response))
     = (putCredentials \<lparr>Token = ''acc'', Secret = ''as''\<rparr> init, Respond ''home'' None :: unit response)"
  using logout_keeps_store
      [where ?'a = unit and ?'b = unit
         and s = "putCredentials \<lparr>Token = ''acc'', Secret = ''as''\<rparr> init"
         and t = "''acc''" and c' = "\<lparr>Token = ''acc'', Secret = ''as''\<rparr>"
         and handler = "serveHome ''/''" and optional = False and now = 7200]
  by (simp add: getCredentials_def putCredentials_def init_def serveHome_def serveLogout_def)

text \<open>
  C4, as stated, fails: after \<open>/authorize\<close> and a successful callback have stored the
  access credentials \<open>acc\<close>, they are still resolvable by lookup after \<open>serveLogout\<close>.
\<close>

theorem logout_counterexample:
  "getCredentials
     (fst (serveLogout 7200
        (fst (serveOAuthCallback (\<lambda>c t v. Inr \<lparr>Token = ''acc'', Secret = ''as''\<rparr>) ''tmp'' ''v''
                (fst (serveAuthorize (\<lambda>c cb. Inr \<lparr>Token = ''tmp'', Secret = ''ts''\<rparr>)
                        ''localhost:8080'' init :: server \<times> unit response))
              :: server \<times> unit response))
       :: server \<times> unit response)) ''acc''
     = Some \<lparr>Token = ''acc'', Secret = ''as''\<rparr>"
  by (simp add: serveLogout_def serveOAuthCallback_def serveAuthorize_def getCredentials_def
      putCredentials_def deleteCredentials_def init_def)

text \<open>
  C5. When the request for temporary credentials fails, either entry point writes the
  error to the caller and returns the state it was given: nothing is put in the store.
\<close>

theorem begin_failure_atomic:
  "(rtc (signinOAuthClient s) (''http://'' @ host @ ''/callback'') = Inl e \<longrightarrow>
      serveSignin rtc host s = (s, Error (''Error getting temp cred, '' @ e) 500 :: 'a response))
   \<and> (rtc (oauthClient s) (''http://'' @ host @ ''/callback'') = Inl e \<longrightarrow>
      serveAuthorize rtc host s = (s, Error (''Error getting temp cred, '' @ e) 500 :: 'a response))"
  by (simp add: serveSignin_def serveAuthorize_def)

theorem begin_failure_atomic_witness:
  "serveSignin (\<lambda>c cb. Inl ''503 Service Unavailable'') ''localhost:8080''
       (putCredentials \<lparr>Token = ''acc'', Secret = ''as''\<rparr> init)
     = (putCredentials \<lparr>Token = ''acc'', Secret = ''as''\<rparr> init,
        Error ''Error getting temp cred, 503 Service Unavailable'' 500 :: unit response)
   \<and> serveAuthorize (\<lambda>c cb. Inl ''503 Service Unavailable'') ''localhost:8080''
       (putCredentials \<lparr>Token = ''acc'', Secret = ''as''\<rparr> init)
     = (putCredentials \<lparr>Token = ''acc'', Secret = ''as''\<rparr> init,
        Error ''Error getting temp cred, 503 Service Unavailable'' 500 :: unit response)"
  using begin_failure_atomic
      [where ?'a = unit and s = "putCredentials \<lparr>Token = ''acc'', Secret = ''as''\<rparr> init"
         and host = "''localhost:8080''" and e = "''503 Service Unavailable''"
         and rtc = "\<lambda>c cb. Inl ''503 Service Unavailable''"]
  by simp

subsection \<open>Signed API client\<close>

lemma decodeResponse_not_200:
  "StatusCode resp \<noteq> 200 \<Longrightarrow>
     decodeResponse decode resp =
       Inl (''Get '' @ RequestURL resp @ '' returned status '' @ itoa (StatusCode resp)
            @ '', '' @ Data (Body resp))"
  by (simp add: decodeResponse_def ReadAll_def)


lemma callAPI_impl_not_200:
  assumes "postForm (baseURL @ url) (sign (oauthClient' p) token ''POST'' (baseURL @ url)
             (map (\<lambda>(k, v). (k, [v])) opt)) = Inr res"
    and "StatusCode res \<noteq> 200" and "ReadErr (Body res) = None"
  shows "callAPI_impl sign postForm token url opt p =
     (Inl (Data (Body res)),
      p\<lparr>sent := sent p @ [PostForm (baseURL @ url)
             (sign (oauthClient' p) token ''POST'' (baseURL @ url)
                (map (\<lambda>(k, v). (k, [v])) opt))]\<rparr>)"
  using assms by (simp add: callAPI_impl_def ReadAll_def Let_def)

text \<open>
  C6, as amended. In the server example a response whose status is not 200 gives an error
  whose message is \<open>Get\<close>, the URL, \<open>returned status\<close>, the status in decimal (\<open>500\<close> for
  status 500) and the body as read; the decoder is not consulted, and the library is
  called once. The command-line client gives on such a response, once its body is read,
  an error whose message is the body alone, after the one request it makes.
\<close>

theorem non200_error:
  "(StatusCode resp \<noteq> 200 \<longrightarrow>
      decodeResponse decode resp =
        Inl (''Get '' @ RequestURL resp @ '' returned status '' @ itoa (StatusCode resp)
             @ '', '' @ Data (Body resp)))
   \<and> (StatusCode resp = 500 \<longrightarrow>
      decodeResponse decode resp =
        Inl (''Get '' @ RequestURL resp @ '' returned status 500, '' @ Data (Body resp)))
   \<and> (get (oauthClient s) cred urlStr form = Inr resp \<and> StatusCode resp \<noteq> 200 \<longrightarrow>
      apiGet get decode s cred urlStr form =
        Inl (''Get '' @ RequestURL resp @ '' returned status '' @ itoa (StatusCode resp)
             @ '', '' @ Data (Body resp)))
   \<and> (post (oauthClient s) cred urlStr form = Inr resp \<and> StatusCode resp \<noteq> 200 \<longrightarrow>
      apiPost post decode s cred urlStr form =
        Inl (''Get '' @ RequestURL resp @ '' returned status '' @ itoa (StatusCode resp)
             @ '', '' @ Data (Body resp)))
   \<and> (postForm (baseURL @ url) (sign (oauthClient' p) token ''POST'' (baseURL @ url)
             (map (\<lambda>(k, v). (k, [v])) opt)) = Inr res
        \<and> StatusCode res \<noteq> 200 \<and> ReadErr (Body res) = None \<longrightarrow>
      callAPI_impl sign postForm token url opt p =
        (Inl (Data (Body res)),
         p\<lparr>sent := sent p @ [PostForm (baseURL @ url)
             (sign (oauthClient' p) token ''POST'' (baseURL @ url)
                (map (\<lambda>(k, v). (k, [v])) opt))]\<rparr>))"
proof (intro conjI impI)
  assume "StatusCode resp \<noteq> 200"
  then show "decodeResponse decode resp =
        Inl (''Get '' @ RequestURL resp @ '' returned status '' @ itoa (StatusCode resp)
             @ '', '' @ Data (Body resp))"
    by (rule decodeResponse_not_200)
next
  assume "StatusCode resp = 500"
  moreover have "itoa 500 = ''500''"
    by (simp add: itoa_def digits.simps)
  ultimately show "decodeResponse decode resp =
        Inl (''Get '' @ RequestURL resp @ '' returned status 500, '' @ Data (Body resp))"
    by (simp add: decodeResponse_not_200)
next
  assume "get (oauthClient s) cred urlStr form = Inr resp \<and> StatusCode resp \<noteq> 200"
  then show "apiGet get decode s cred urlStr form =
        Inl (''Get '' @ RequestURL resp @ '' returned status '' @ itoa (StatusCode resp)
             @ '', '' @ Data (Body resp))"
    by (simp add: apiGet_def decodeResponse_not_200)
next
  assume "post (oauthClient s) cred urlStr form = Inr resp \<and> StatusCode resp \<noteq> 200"
  then show "apiPost post decode s cred urlStr form =
        Inl (''Get '' @ RequestURL resp @ '' returned status '' @ itoa (StatusCode resp)
             @ '', '' @ Data (Body resp))"
    by (simp add: apiPost_def decodeResponse_not_200)
next
  assume "postForm (baseURL @ url) (sign (oauthClient' p) token ''POST'' (baseURL @ url)
             (map (\<lambda>(k, v). (k, [v])) opt)) = Inr res
        \<and> StatusCode res \<noteq> 200 \<and> ReadErr (Body res) = None"
  then show "callAPI_impl sign postForm token url opt p =
        (Inl (Data (Body res)),
         p\<lparr>sent := sent p @ [PostForm (baseURL @ url)
             (sign (oauthClient' p) token ''POST'' (baseURL @ url)
                (map (\<lambda>(k, v). (k, [v])) opt))]\<rparr>)"
    by (simp add: callAPI_impl_not_200)
qed
theorem non200_error_witness:
  "decodeResponse (\<lambda>b. Inr (Data b))
       \<lparr>StatusCode = 500, Body = \<lparr>Data = ''boom'', ReadErr = None\<rparr>,
        RequestURL = ''http://api.twitter.com/1/direct_messages.json''\<rparr>
     = Inl ''Get http://api.twitter.com/1/direct_messages.json returned status 500, boom''
   \<and> apiGet (\<lambda>c cr u f. Inr \<lparr>StatusCode = 500, Body = \<lparr>Data = ''boom'', ReadErr = None\<rparr>,
                               RequestURL = u\<rparr>)
        (\<lambda>b. Inr (Data b)) init None ''http://api.twitter.com/1/direct_messages.json'' []
     = Inl ''Get http://api.twitter.com/1/direct_messages.json returned status 500, boom''
   \<and> apiPost (\<lambda>c cr u f. Inr \<lparr>StatusCode = 500, Body = \<lparr>Data = ''boom'', ReadErr = None\<rparr>,
                               RequestURL = u\<rparr>)
        (\<lambda>b. Inr (Data b)) init None ''http://api.twitter.com/1/direct_messages.json'' []
     = Inl ''Get http://api.twitter.com/1/direct_messages.json returned status 500, boom''
   \<and> fst (callAPI_impl (\<lambda>c t m u f. f)
             (\<lambda>u f. Inr \<lparr>StatusCode = 500, Body = \<lparr>Data = ''boom'', ReadErr = None\<rparr>,
                          RequestURL = u\<rparr>)
             None ''/APP/Profile/getOwnProfile'' [] (start (Inl ''no file'')))
     = Inl ''boom''
   \<and> sent (snd (callAPI_impl (\<lambda>c t m u f. f)
             (\<lambda>u f. Inr \<lparr>StatusCode = 500, Body = \<lparr>Data = ''boom'', ReadErr = None\<rparr>,
                          RequestURL = u\<rparr>)
             None ''/APP/Profile/getOwnProfile'' [] (start (Inl ''no file''))))
     = [PostForm ''https://www.plurk.com/APP/Profile/getOwnProfile'' []]"
  using non200_error
      [where resp = "\<lparr>StatusCode = 500, Body = \<lparr>Data = ''boom'', ReadErr = None\<rparr>,
                      RequestURL = ''http://api.twitter.com/1/direct_messages.json''\<rparr>"
         and decode = "\<lambda>b. Inr (Data b)"
         and get = "\<lambda>c cr u f. Inr \<lparr>StatusCode = 500, Body = \<lparr>Data = ''boom'', ReadErr = None\<rparr>,
                                    RequestURL = u\<rparr>"
         and post = "\<lambda>c cr u f. Inr \<lparr>StatusCode = 500, Body = \<lparr>Data = ''boom'', ReadErr = None\<rparr>,
                                    RequestURL = u\<rparr>"
         and s = init and cred = None
         and urlStr = "''http://api.twitter.com/1/direct_messages.json''" and form = "[]"
         and sign = "\<lambda>c t m u f. f"
         and postForm = "\<lambda>u f. Inr \<lparr>StatusCode = 500, Body = \<lparr>Data = ''boom'', ReadErr = None\<rparr>,
                                    RequestURL = u\<rparr>"
         and res = "\<lparr>StatusCode = 500, Body = \<lparr>Data = ''boom'', ReadErr = None\<rparr>,
                     RequestURL = ''https://www.plurk.com/APP/Profile/getOwnProfile''\<rparr>"
         and token = None and url = "''/APP/Profile/getOwnProfile''" and opt = "[]"
         and p = "start (Inl ''no file'')"]
  by (simp add: itoa_def digits.simps baseURL_def start_def)

text \<open>
  C6, as stated, fails for the command-line client: its error for a response of status 500
  and its error for a response of status 404 with the same body are the same error, the
  body, so the error does not carry the status.
\<close>

theorem non200_error_counterexample:
  "fst (callAPI_impl (\<lambda>c t m u f. f)
          (\<lambda>u f. Inr \<lparr>StatusCode = 500, Body = \<lparr>Data = ''boom'', ReadErr = None\<rparr>,
                       RequestURL = u\<rparr>)
          None ''/APP/Profile/getOwnProfile'' [] (start (Inl ''no file'')))
     = Inl ''boom''
   \<and> fst (callAPI_impl (\<lambda>c t m u f. f)
          (\<lambda>u f. Inr \<lparr>StatusCode = 404, Body = \<lparr>Data = ''boom'', ReadErr = None\<rparr>,
                       RequestURL = u\<rparr>)
          None ''/APP/Profile/getOwnProfile'' [] (start (Inl ''no file'')))
     = Inl ''boom''"
  by (simp add: callAPI_impl_def ReadAll_def)


lemma not_space [simp]:
  "\<not> is_space quote" "\<not> is_space (CHR ''{'')" "\<not> is_space (CHR ''}'')"
  "\<not> is_space (CHR '':'')" "\<not> is_space (CHR '','')"
  by (simp_all add: is_space_def)














subsection \<open>Consumer identity\<close>

lemma putCredentials_clients [simp]:
  "oauthClient (putCredentials c s) = oauthClient s"
  "signinOAuthClient (putCredentials c s) = signinOAuthClient s"
  "configReads (putCredentials c s) = configReads s"
  by (simp_all add: putCredentials_def)

lemma deleteCredentials_clients [simp]:
  "oauthClient (deleteCredentials t s) = oauthClient s"
  "signinOAuthClient (deleteCredentials t s) = signinOAuthClient s"
  "configReads (deleteCredentials t s) = configReads s"
  by (simp_all add: deleteCredentials_def)







lemma ReadCredentials_process:
  "snd (ReadCredentials unmarshal p) = p\<lparr>configReads' := configReads' p + 1\<rparr>"
  by (simp add: ReadCredentials_def Let_def split: sum.splits)


lemma ReadCredentials_Inr:
  assumes "fst (ReadCredentials unmarshal p) = Inr cred"
  shows "ReadCredentials unmarshal p = (Inr cred, p\<lparr>configReads' := configReads' p + 1\<rparr>)"
  using assms ReadCredentials_process [of unmarshal p]
  by (cases "ReadCredentials unmarshal p") simp



lemma callAPI_impl_frame:
  "oauthClient' (snd (callAPI_impl sign postForm token url opt p)) = oauthClient' p
   \<and> credFile (snd (callAPI_impl sign postForm token url opt p)) = credFile p
   \<and> configReads' (snd (callAPI_impl sign postForm token url opt p)) = configReads' p"
  by (simp add: callAPI_impl_def Let_def split: sum.splits prod.splits option.splits)

lemma CallAPI_frame:
  "oauthClient' (snd (CallAPI sign postForm token url opt p)) = oauthClient' p
   \<and> credFile (snd (CallAPI sign postForm token url opt p)) = credFile p
   \<and> configReads' (snd (CallAPI sign postForm token url opt p)) = configReads' p"
  by (simp add: CallAPI_def callAPI_def callAPI_impl_frame)

lemma finish_frame:
  "oauthClient' (snd (case CallAPI sign postForm tok url opt q of
                        (Inl e, p3) \<Rightarrow> (Fatal (f e), p3)
                      | (Inr result, p3) \<Rightarrow> (Return result, p3))) = oauthClient' q
   \<and> credFile (snd (case CallAPI sign postForm tok url opt q of
                        (Inl e, p3) \<Rightarrow> (Fatal (f e), p3)
                      | (Inr result, p3) \<Rightarrow> (Return result, p3))) = credFile q
   \<and> configReads' (snd (case CallAPI sign postForm tok url opt q of
                        (Inl e, p3) \<Rightarrow> (Fatal (f e), p3)
                      | (Inr result, p3) \<Rightarrow> (Return result, p3))) = configReads' q"
  using CallAPI_frame [of sign postForm tok url opt q]
  by (cases "CallAPI sign postForm tok url opt q") (auto split: sum.splits)






subsection \<open>Command-line program: stored credentials and the handshake\<close>

lemma GetAccessToken_stored:
  assumes "AccessToken cred \<noteq> []" and "AccessSecret cred \<noteq> []"
  shows "GetAccessToken rtc rt pinCode cred p =
     (Return (Some \<lparr>Token = AccessToken cred, Secret = AccessSecret cred\<rparr>, False, None), cred,
      p\<lparr>oauthClient' := (oauthClient' p)
           \<lparr>Credentials := \<lparr>Token = ConsumerToken cred, Secret = ConsumerSecret cred\<rparr>\<rparr>\<rparr>)"
  using assms by (simp add: GetAccessToken_def)

lemma GetAccessToken_handshake:
  assumes "\<not> (AccessToken cred \<noteq> [] \<and> AccessSecret cred \<noteq> [])"
    and "cl = (oauthClient' p)
           \<lparr>Credentials := \<lparr>Token = ConsumerToken cred, Secret = ConsumerSecret cred\<rparr>\<rparr>"
    and "rtc cl [] = Inr requestToken"
    and "rt cl requestToken pinCode = Inr token"
  shows "GetAccessToken rtc rt pinCode cred p =
     (Return (Some token, True, None),
      cred\<lparr>AccessToken := Token token, AccessSecret := Secret token\<rparr>,
      p\<lparr>oauthClient' := cl,
        sent := sent p @ [TemporaryCredentialRequest cl [], TokenRequest cl requestToken pinCode]\<rparr>)"
  using assms by (auto simp: GetAccessToken_def doAuth_def Let_def)

lemma GetAccessToken_exchange_fails:
  assumes "\<not> (AccessToken cred \<noteq> [] \<and> AccessSecret cred \<noteq> [])"
    and "cl = (oauthClient' p)
           \<lparr>Credentials := \<lparr>Token = ConsumerToken cred, Secret = ConsumerSecret cred\<rparr>\<rparr>"
    and "rtc cl [] = Inr requestToken"
    and "rt cl requestToken pinCode = Inl e"
  shows "fst (GetAccessToken rtc rt pinCode cred p) = Fatal (''failed to request token:'' @ e)"
  using assms by (auto simp: GetAccessToken_def doAuth_def Let_def)

lemma callAPI_impl_sent:
  "sent (snd (callAPI_impl sign postForm token url opt p)) =
     sent p @ [PostForm (baseURL @ url)
                 (sign (oauthClient' p) token ''POST'' (baseURL @ url)
                    (map (\<lambda>(k, v). (k, [v])) opt))]"
  by (simp add: callAPI_impl_def Let_def ReadAll_def split: sum.splits option.splits)

lemma finish_sent:
  "sent (snd (case CallAPI sign postForm tok url opt q of
                (Inl e, p3) \<Rightarrow> (Fatal (f e), p3)
              | (Inr result, p3) \<Rightarrow> (Return result, p3))) =
     sent q @ [PostForm (baseURL @ url)
                 (sign (oauthClient' q) tok ''POST'' (baseURL @ url)
                    (map (\<lambda>(k, v). (k, [v])) opt))]"
  using callAPI_impl_sent [of sign postForm tok url opt q]
  by (cases "CallAPI sign postForm tok url opt q")
     (auto simp: CallAPI_def callAPI_def split: sum.splits)

lemma main_stored:
  assumes "fst (ReadCredentials unmarshal p) = Inr cred"
    and "AccessToken cred \<noteq> []" and "AccessSecret cred \<noteq> []"
    and "cl = (oauthClient' p)
           \<lparr>Credentials := \<lparr>Token = ConsumerToken cred, Secret = ConsumerSecret cred\<rparr>\<rparr>"
  shows "credFile (snd (main unmarshal rtc rt pinCode marshal writeFile sign postForm p)) = credFile p
     \<and> sent (snd (main unmarshal rtc rt pinCode marshal writeFile sign postForm p)) =
         sent p @ [PostForm (baseURL @ ''/APP/Profile/getOwnProfile'')
                     (sign cl (Some \<lparr>Token = AccessToken cred, Secret = AccessSecret cred\<rparr>)
                        ''POST'' (baseURL @ ''/APP/Profile/getOwnProfile'') [])]"
  using assms(2-4)
  by (simp add: main_def ReadCredentials_Inr [OF assms(1)] GetAccessToken_stored
      finish_frame finish_sent)

lemma main_handshake:
  assumes "fst (ReadCredentials unmarshal p) = Inr cred"
    and "\<not> (AccessToken cred \<noteq> [] \<and> AccessSecret cred \<noteq> [])"
    and "cl = (oauthClient' p)
           \<lparr>Credentials := \<lparr>Token = ConsumerToken cred, Secret = ConsumerSecret cred\<rparr>\<rparr>"
    and "rtc cl [] = Inr requestToken"
    and "rt cl requestToken pinCode = Inr token"
    and "marshal (cred\<lparr>AccessToken := Token token, AccessSecret := Secret token\<rparr>) = Inr bytes"
    and "writeFile bytes = None"
  shows "credFile (snd (main unmarshal rtc rt pinCode marshal writeFile sign postForm p)) = Inr bytes
     \<and> sent (snd (main unmarshal rtc rt pinCode marshal writeFile sign postForm p)) =
         sent p @ [TemporaryCredentialRequest cl [], TokenRequest cl requestToken pinCode,
                   PostForm (baseURL @ ''/APP/Profile/getOwnProfile'')
                     (sign cl (Some token) ''POST'' (baseURL @ ''/APP/Profile/getOwnProfile'') [])]"
proof -
  define p0 where "p0 = p\<lparr>configReads' := configReads' p + 1\<rparr>"
  have cl: "cl = (oauthClient' p0)
           \<lparr>Credentials := \<lparr>Token = ConsumerToken cred, Secret = ConsumerSecret cred\<rparr>\<rparr>"
    using assms(3) by (simp add: p0_def)
  have g: "GetAccessToken rtc rt pinCode cred p0 =
     (Return (Some token, True, None),
      cred\<lparr>AccessToken := Token token, AccessSecret := Secret token\<rparr>,
      p0\<lparr>oauthClient' := cl,
         sent := sent p0 @ [TemporaryCredentialRequest cl [], TokenRequest cl requestToken pinCode]\<rparr>)"
    using assms(2) cl assms(4,5) by (rule GetAccessToken_handshake)
  have rd: "ReadCredentials unmarshal p = (Inr cred, p0)"
    using ReadCredentials_Inr [OF assms(1)] by (simp add: p0_def)
  show ?thesis
    using assms(6,7) by (simp add: main_def rd g finish_frame finish_sent) (simp add: p0_def)
qed

text \<open>
  C9. With a non-empty access token and secret in the credentials, \<open>GetAccessToken\<close>
  returns exactly them with \<open>authorized\<close> false and no error, and sends nothing to the
  remote service; \<open>main\<close> then leaves the configuration file as it is and makes the API
  call only. Otherwise, when the request for temporary credentials and the exchange
  succeed, \<open>GetAccessToken\<close> has sent these two requests, returns the token obtained with
  \<open>authorized\<close> true and has stored it in the credentials; \<open>main\<close> then, when marshalling
  and writing succeed, has written the credentials, marshalled, to the configuration
  file and made the API call with the new token.
\<close>

theorem cli_credential_persistence:
  "(AccessToken cred \<noteq> [] \<and> AccessSecret cred \<noteq> [] \<longrightarrow>
      GetAccessToken rtc rt pinCode cred p =
        (Return (Some \<lparr>Token = AccessToken cred, Secret = AccessSecret cred\<rparr>, False, None), cred,
         p\<lparr>oauthClient' := (oauthClient' p)
              \<lparr>Credentials := \<lparr>Token = ConsumerToken cred, Secret = ConsumerSecret cred\<rparr>\<rparr>\<rparr>)
      \<and> sent (snd (snd (GetAccessToken rtc rt pinCode cred p))) = sent p)
   \<and> (fst (ReadCredentials unmarshal p) = Inr cred \<and> AccessToken cred \<noteq> [] \<and> AccessSecret cred \<noteq> []
        \<and> cl = (oauthClient' p)
              \<lparr>Credentials := \<lparr>Token = ConsumerToken cred, Secret = ConsumerSecret cred\<rparr>\<rparr> \<longrightarrow>
      credFile (snd (main unmarshal rtc rt pinCode marshal writeFile sign postForm p)) = credFile p
      \<and> sent (snd (main unmarshal rtc rt pinCode marshal writeFile sign postForm p)) =
          sent p @ [PostForm (baseURL @ ''/APP/Profile/getOwnProfile'')
                      (sign cl (Some \<lparr>Token = AccessToken cred, Secret = AccessSecret cred\<rparr>)
                         ''POST'' (baseURL @ ''/APP/Profile/getOwnProfile'') [])])
   \<and> (\<not> (AccessToken cred \<noteq> [] \<and> AccessSecret cred \<noteq> [])
        \<and> cl = (oauthClient' p)
              \<lparr>Credentials := \<lparr>Token = ConsumerToken cred, Secret = ConsumerSecret cred\<rparr>\<rparr>
        \<and> rtc cl [] = Inr requestToken \<and> rt cl requestToken pinCode = Inr token \<longrightarrow>
      GetAccessToken rtc rt pinCode cred p =
        (Return (Some token, True, None),
         cred\<lparr>AccessToken := Token token, AccessSecret := Secret token\<rparr>,
         p\<lparr>oauthClient' := cl,
           sent := sent p @ [TemporaryCredentialRequest cl [],
                             TokenRequest cl requestToken pinCode]\<rparr>))
   \<and> (fst (ReadCredentials unmarshal p) = Inr cred
        \<and> \<not> (AccessToken cred \<noteq> [] \<and> AccessSecret cred \<noteq> [])
        \<and> cl = (oauthClient' p)
              \<lparr>Credentials := \<lparr>Token = ConsumerToken cred, Secret = ConsumerSecret cred\<rparr>\<rparr>
        \<and> rtc cl [] = Inr requestToken \<and> rt cl requestToken pinCode = Inr token
        \<and> marshal (cred\<lparr>AccessToken := Token token, AccessSecret := Secret token\<rparr>) = Inr bytes
        \<and> writeFile bytes = None \<longrightarrow>
      credFile (snd (main unmarshal rtc rt pinCode marshal writeFile sign postForm p)) = Inr bytes
      \<and> sent (snd (main unmarshal rtc rt pinCode marshal writeFile sign postForm p)) =
          sent p @ [TemporaryCredentialRequest cl [], TokenRequest cl requestToken pinCode,
                    PostForm (baseURL @ ''/APP/Profile/getOwnProfile'')
                      (sign cl (Some token) ''POST'' (baseURL @ ''/APP/Profile/getOwnProfile'') [])])"
proof (intro conjI impI)
  assume a: "AccessToken cred \<noteq> [] \<and> AccessSecret cred \<noteq> []"
  then show "GetAccessToken rtc rt pinCode cred p =
        (Return (Some \<lparr>Token = AccessToken cred, Secret = AccessSecret cred\<rparr>, False, None), cred,
         p\<lparr>oauthClient' := (oauthClient' p)
              \<lparr>Credentials := \<lparr>Token = ConsumerToken cred, Secret = ConsumerSecret cred\<rparr>\<rparr>\<rparr>)"
    by (simp add: GetAccessToken_stored)
  from a show "sent (snd (snd (GetAccessToken rtc rt pinCode cred p))) = sent p"
    by (simp add: GetAccessToken_stored)
next
  assume a: "fst (ReadCredentials unmarshal p) = Inr cred \<and> AccessToken cred \<noteq> [] \<and> AccessSecret cred \<noteq> []
        \<and> cl = (oauthClient' p)
              \<lparr>Credentials := \<lparr>Token = ConsumerToken cred, Secret = ConsumerSecret cred\<rparr>\<rparr>"
  then have m: "credFile (snd (main unmarshal rtc rt pinCode marshal writeFile sign postForm p))
        = credFile p
      \<and> sent (snd (main unmarshal rtc rt pinCode marshal writeFile sign postForm p)) =
          sent p @ [PostForm (baseURL @ ''/APP/Profile/getOwnProfile'')
                      (sign cl (Some \<lparr>Token = AccessToken cred, Secret = AccessSecret cred\<rparr>)
                         ''POST'' (baseURL @ ''/APP/Profile/getOwnProfile'') [])]"
    using main_stored [of unmarshal p cred cl rtc rt pinCode marshal writeFile sign postForm]
    by blast
  from m show "credFile (snd (main unmarshal rtc rt pinCode marshal writeFile sign postForm p))
        = credFile p" by blast
  from m show "sent (snd (main unmarshal rtc rt pinCode marshal writeFile sign postForm p)) =
          sent p @ [PostForm (baseURL @ ''/APP/Profile/getOwnProfile'')
                      (sign cl (Some \<lparr>Token = AccessToken cred, Secret = AccessSecret cred\<rparr>)
                         ''POST'' (baseURL @ ''/APP/Profile/getOwnProfile'') [])]" by blast
next
  assume "\<not> (AccessToken cred \<noteq> [] \<and> AccessSecret cred \<noteq> [])
        \<and> cl = (oauthClient' p)
              \<lparr>Credentials := \<lparr>Token = ConsumerToken cred, Secret = ConsumerSecret cred\<rparr>\<rparr>
        \<and> rtc cl [] = Inr requestToken \<and> rt cl requestToken pinCode = Inr token"
  then show "GetAccessToken rtc rt pinCode cred p =
        (Return (Some token, True, None),
         cred\<lparr>AccessToken := Token token, AccessSecret := Secret token\<rparr>,
         p\<lparr>oauthClient' := cl,
           sent := sent p @ [TemporaryCredentialRequest cl [],
                             TokenRequest cl requestToken pinCode]\<rparr>)"
    using GetAccessToken_handshake [of cred cl p rtc requestToken rt pinCode token] by blast
next
  assume a: "fst (ReadCredentials unmarshal p) = Inr cred
        \<and> \<not> (AccessToken cred \<noteq> [] \<and> AccessSecret cred \<noteq> [])
        \<and> cl = (oauthClient' p)
              \<lparr>Credentials := \<lparr>Token = ConsumerToken cred, Secret = ConsumerSecret cred\<rparr>\<rparr>
        \<and> rtc cl [] = Inr requestToken \<and> rt cl requestToken pinCode = Inr token
        \<and> marshal (cred\<lparr>AccessToken := Token token, AccessSecret := Secret token\<rparr>) = Inr bytes
        \<and> writeFile bytes = None"
  then have m: "credFile (snd (main unmarshal rtc rt pinCode marshal writeFile sign postForm p))
        = Inr bytes
      \<and> sent (snd (main unmarshal rtc rt pinCode marshal writeFile sign postForm p)) =
          sent p @ [TemporaryCredentialRequest cl [], TokenRequest cl requestToken pinCode,
                    PostForm (baseURL @ ''/APP/Profile/getOwnProfile'')
                      (sign cl (Some token) ''POST'' (baseURL @ ''/APP/Profile/getOwnProfile'') [])]"
    using main_handshake
      [of unmarshal p cred cl rtc requestToken rt pinCode token marshal bytes writeFile sign postForm]
    by blast
  from m show "credFile (snd (main unmarshal rtc rt pinCode marshal writeFile sign postForm p))
        = Inr bytes" by blast
  from m show "sent (snd (main unmarshal rtc rt pinCode marshal writeFile sign postForm p)) =
          sent p @ [TemporaryCredentialRequest cl [], TokenRequest cl requestToken pinCode,
                    PostForm (baseURL @ ''/APP/Profile/getOwnProfile'')
                      (sign cl (Some token) ''POST'' (baseURL @ ''/APP/Profile/getOwnProfile'') [])]"
    by blast
qed
theorem cli_credential_persistence_witness:
  "fst (GetAccessToken (\<lambda>c cb. Inl ''not asked'') (\<lambda>c t v. Inl ''not asked'') ''1234''
          \<lparr>ConsumerToken = ''ck'', ConsumerSecret = ''cs'', AccessToken = ''at'', AccessSecret = ''as''\<rparr>
          (start (Inr ''cfg'')))
     = Return (Some \<lparr>Token = ''at'', Secret = ''as''\<rparr>, False, None)
   \<and> credFile (snd (main
          (\<lambda>b. Inr \<lparr>ConsumerToken = ''ck'', ConsumerSecret = ''cs'',
                     AccessToken = ''at'', AccessSecret = ''as''\<rparr>)
          (\<lambda>c cb. Inl ''not asked'') (\<lambda>c t v. Inl ''not asked'') ''1234''
          (\<lambda>c. Inr (AccessToken c @ '','' @ AccessSecret c)) (\<lambda>b. None) (\<lambda>c t m u f. f)
          (\<lambda>u f. Inr \<lparr>StatusCode = 200, Body = \<lparr>Data = ''{}'', ReadErr = None\<rparr>, RequestURL = u\<rparr>)
          (start (Inr ''cfg''))))
     = Inr ''cfg''
   \<and> sent (snd (main
          (\<lambda>b. Inr \<lparr>ConsumerToken = ''ck'', ConsumerSecret = ''cs'',
                     AccessToken = ''at'', AccessSecret = ''as''\<rparr>)
          (\<lambda>c cb. Inl ''not asked'') (\<lambda>c t v. Inl ''not asked'') ''1234''
          (\<lambda>c. Inr (AccessToken c @ '','' @ AccessSecret c)) (\<lambda>b. None) (\<lambda>c t m u f. f)
          (\<lambda>u f. Inr \<lparr>StatusCode = 200, Body = \<lparr>Data = ''{}'', ReadErr = None\<rparr>, RequestURL = u\<rparr>)
          (start (Inr ''cfg''))))
     = [PostForm ''https://www.plurk.com/APP/Profile/getOwnProfile'' []]
   \<and> fst (GetAccessToken (\<lambda>c cb. Inr \<lparr>Token = ''tmp'', Secret = ''ts''\<rparr>)
          (\<lambda>c t v. Inr \<lparr>Token = ''at'', Secret = ''as''\<rparr>) ''1234''
          \<lparr>ConsumerToken = ''ck'', ConsumerSecret = ''cs'', AccessToken = [], AccessSecret = []\<rparr>
          (start (Inr ''cfg'')))
     = Return (Some \<lparr>Token = ''at'', Secret = ''as''\<rparr>, True, None)
   \<and> credFile (snd (main
          (\<lambda>b. Inr \<lparr>ConsumerToken = ''ck'', ConsumerSecret = ''cs'', AccessToken = [], AccessSecret = []\<rparr>)
          (\<lambda>c cb. Inr \<lparr>Token = ''tmp'', Secret = ''ts''\<rparr>)
          (\<lambda>c t v. Inr \<lparr>Token = ''at'', Secret = ''as''\<rparr>) ''1234''
          (\<lambda>c. Inr (AccessToken c @ '','' @ AccessSecret c)) (\<lambda>b. None) (\<lambda>c t m u f. f)
          (\<lambda>u f. Inr \<lparr>StatusCode = 200, Body = \<lparr>Data = ''{}'', ReadErr = None\<rparr>, RequestURL = u\<rparr>)
          (start (Inr ''cfg''))))
     = Inr ''at,as''"
  using
    cli_credential_persistence
      [where cred = "\<lparr>ConsumerToken = ''ck'', ConsumerSecret = ''cs'',
                      AccessToken = ''at'', AccessSecret = ''as''\<rparr>"
         and p = "start (Inr ''cfg'')"
         and unmarshal = "\<lambda>b. Inr \<lparr>ConsumerToken = ''ck'', ConsumerSecret = ''cs'',
                                    AccessToken = ''at'', AccessSecret = ''as''\<rparr>"
         and rtc = "\<lambda>c cb. Inl ''not asked''" and rt = "\<lambda>c t v. Inl ''not asked''"
         and pinCode = "''1234''"
         and marshal = "\<lambda>c. Inr (AccessToken c @ '','' @ AccessSecret c)"
         and writeFile = "\<lambda>b. None" and sign = "\<lambda>c t m u f. f"
         and postForm = "\<lambda>u f. Inr \<lparr>StatusCode = 200, Body = \<lparr>Data = ''{}'', ReadErr = None\<rparr>,
                                    RequestURL = u\<rparr>"
         and cl = "(oauthClient' (start (Inr ''cfg'')))
                     \<lparr>Credentials := \<lparr>Token = ''ck'', Secret = ''cs''\<rparr>\<rparr>"
         and requestToken = "\<lparr>Token = ''tmp'', Secret = ''ts''\<rparr>"
         and token = "\<lparr>Token = ''at'', Secret = ''as''\<rparr>" and bytes = "''at,as''"]
    cli_credential_persistence
      [where cred = "\<lparr>ConsumerToken = ''ck'', ConsumerSecret = ''cs'',
                      AccessToken = [], AccessSecret = []\<rparr>"
         and p = "start (Inr ''cfg'')"
         and unmarshal = "\<lambda>b. Inr \<lparr>ConsumerToken = ''ck'', ConsumerSecret = ''cs'',
                                    AccessToken = [], AccessSecret = []\<rparr>"
         and rtc = "\<lambda>c cb. Inr \<lparr>Token = ''tmp'', Secret = ''ts''\<rparr>"
         and rt = "\<lambda>c t v. Inr \<lparr>Token = ''at'', Secret = ''as''\<rparr>"
         and pinCode = "''1234''"
         and marshal = "\<lambda>c. Inr (AccessToken c @ '','' @ AccessSecret c)"
         and writeFile = "\<lambda>b. None" and sign = "\<lambda>c t m u f. f"
         and postForm = "\<lambda>u f. Inr \<lparr>StatusCode = 200, Body = \<lparr>Data = ''{}'', ReadErr = None\<rparr>,
                                    RequestURL = u\<rparr>"
         and cl = "(oauthClient' (start (Inr ''cfg'')))
                     \<lparr>Credentials := \<lparr>Token = ''ck'', Secret = ''cs''\<rparr>\<rparr>"
         and requestToken = "\<lparr>Token = ''tmp'', Secret = ''ts''\<rparr>"
         and token = "\<lparr>Token = ''at'', Secret = ''as''\<rparr>" and bytes = "''at,as''"]
  by (simp add: ReadCredentials_def start_def baseURL_def)

subsection \<open>Command-line program: a failed exchange\<close>

text \<open>
  C10. \<open>doAuth\<close> never returns an error: when the exchange fails the process ends in
  \<open>log.Fatal\<close>, and when it succeeds the error returned is nil. So the branch of
  \<open>GetAccessToken\<close> for an error of \<open>doAuth\<close> is never taken: the only error
  \<open>GetAccessToken\<close> returns to its caller is that of the request for temporary
  credentials, and a failed exchange ends the process inside \<open>GetAccessToken\<close>.
\<close>

theorem doAuth_never_returns_error:
  "(\<forall>c e. fst (doAuth rt pinCode requestToken p) \<noteq> Return (c, Some e))
   \<and> (rt (oauthClient' p) requestToken pinCode = Inl e \<longrightarrow>
        fst (doAuth rt pinCode requestToken p) = Fatal (''failed to request token:'' @ e))
   \<and> (rt (oauthClient' p) requestToken pinCode = Inr token \<longrightarrow>
        fst (doAuth rt pinCode requestToken p) = Return (Some token, None))
   \<and> (fst (GetAccessToken rtc rt pinCode cred q) = Return (t, a, Some e') \<longrightarrow>
        rtc ((oauthClient' q)
               \<lparr>Credentials := \<lparr>Token = ConsumerToken cred, Secret = ConsumerSecret cred\<rparr>\<rparr>) []
          = Inl e')
   \<and> (\<not> (AccessToken cred \<noteq> [] \<and> AccessSecret cred \<noteq> [])
        \<and> cl = (oauthClient' q)
              \<lparr>Credentials := \<lparr>Token = ConsumerToken cred, Secret = ConsumerSecret cred\<rparr>\<rparr>
        \<and> rtc cl [] = Inr requestToken \<and> rt cl requestToken pinCode = Inl e \<longrightarrow>
        fst (GetAccessToken rtc rt pinCode cred q) = Fatal (''failed to request token:'' @ e))"
proof (intro conjI impI allI)
  fix c e
  show "fst (doAuth rt pinCode requestToken p) \<noteq> Return (c, Some e)"
    by (simp add: doAuth_def Let_def split: sum.splits)
next
  assume "rt (oauthClient' p) requestToken pinCode = Inl e"
  then show "fst (doAuth rt pinCode requestToken p) = Fatal (''failed to request token:'' @ e)"
    by (simp add: doAuth_def Let_def)
next
  assume "rt (oauthClient' p) requestToken pinCode = Inr token"
  then show "fst (doAuth rt pinCode requestToken p) = Return (Some token, None)"
    by (simp add: doAuth_def Let_def)
next
  assume "fst (GetAccessToken rtc rt pinCode cred q) = Return (t, a, Some e')"
  then show "rtc ((oauthClient' q)
               \<lparr>Credentials := \<lparr>Token = ConsumerToken cred, Secret = ConsumerSecret cred\<rparr>\<rparr>) []
          = Inl e'"
    by (simp add: GetAccessToken_def doAuth_def Let_def split: if_splits sum.splits)
next
  assume "\<not> (AccessToken cred \<noteq> [] \<and> AccessSecret cred \<noteq> [])
        \<and> cl = (oauthClient' q)
              \<lparr>Credentials := \<lparr>Token = ConsumerToken cred, Secret = ConsumerSecret cred\<rparr>\<rparr>
        \<and> rtc cl [] = Inr requestToken \<and> rt cl requestToken pinCode = Inl e"
  then show "fst (GetAccessToken rtc rt pinCode cred q) = Fatal (''failed to request token:'' @ e)"
    using GetAccessToken_exchange_fails [of cred cl q rtc requestToken rt pinCode e] by blast
qed

theorem doAuth_never_returns_error_witness:
  "fst (doAuth (\<lambda>c t v. Inl ''401 Unauthorized'') ''1234'' \<lparr>Token = ''tmp'', Secret = ''ts''\<rparr>
          (start (Inr ''cfg'')))
     = Fatal ''failed to request token:401 Unauthorized''
   \<and> fst (doAuth (\<lambda>c t v. Inr \<lparr>Token = ''at'', Secret = ''as''\<rparr>) ''1234''
          \<lparr>Token = ''tmp'', Secret = ''ts''\<rparr> (start (Inr ''cfg'')))
     = Return (Some \<lparr>Token = ''at'', Secret = ''as''\<rparr>, None)
   \<and> fst (GetAccessToken (\<lambda>c cb. Inl ''503 Service Unavailable'') (\<lambda>c t v. Inl ''401 Unauthorized'')
          ''1234''
          \<lparr>ConsumerToken = ''ck'', ConsumerSecret = ''cs'', AccessToken = [], AccessSecret = []\<rparr>
          (start (Inr ''cfg'')))
     = Return (None, False, Some ''503 Service Unavailable'')
   \<and> fst (GetAccessToken (\<lambda>c cb. Inr \<lparr>Token = ''tmp'', Secret = ''ts''\<rparr>)
          (\<lambda>c t v. Inl ''401 Unauthorized'') ''1234''
          \<lparr>ConsumerToken = ''ck'', ConsumerSecret = ''cs'', AccessToken = [], AccessSecret = []\<rparr>
          (start (Inr ''cfg'')))
     = Fatal ''failed to request token:401 Unauthorized''"
  using
    doAuth_never_returns_error
      [where rt = "\<lambda>c t v. Inl ''401 Unauthorized''" and pinCode = "''1234''"
         and requestToken = "\<lparr>Token = ''tmp'', Secret = ''ts''\<rparr>" and p = "start (Inr ''cfg'')"
         and e = "''401 Unauthorized''" and token = "\<lparr>Token = ''at'', Secret = ''as''\<rparr>"
         and rtc = "\<lambda>c cb. Inr \<lparr>Token = ''tmp'', Secret = ''ts''\<rparr>"
         and cred = "\<lparr>ConsumerToken = ''ck'', ConsumerSecret = ''cs'',
                      AccessToken = [], AccessSecret = []\<rparr>"
         and q = "start (Inr ''cfg'')"
         and cl = "(oauthClient' (start (Inr ''cfg'')))
                     \<lparr>Credentials := \<lparr>Token = ''ck'', Secret = ''cs''\<rparr>\<rparr>"
         and t = None and a = False and e' = "''503 Service Unavailable''"]
    doAuth_never_returns_error
      [where rt = "\<lambda>c t v. Inr \<lparr>Token = ''at'', Secret = ''as''\<rparr>" and pinCode = "''1234''"
         and requestToken = "\<lparr>Token = ''tmp'', Secret = ''ts''\<rparr>" and p = "start (Inr ''cfg'')"
         and e = "''401 Unauthorized''" and token = "\<lparr>Token = ''at'', Secret = ''as''\<rparr>"
         and rtc = "\<lambda>c cb. Inl ''503 Service Unavailable''"
         and cred = "\<lparr>ConsumerToken = ''ck'', ConsumerSecret = ''cs'',
                      AccessToken = [], AccessSecret = []\<rparr>"
         and q = "start (Inr ''cfg'')"
         and cl = "(oauthClient' (start (Inr ''cfg'')))
                     \<lparr>Credentials := \<lparr>Token = ''ck'', Secret = ''cs''\<rparr>\<rparr>"
         and t = None and a = False and e' = "''503 Service Unavailable''"]
  by (simp add: start_def GetAccessToken_def)

end
